theory Spec2Isabelle
  imports Complex_Main "HOL-Library.Monad_Syntax"
begin

section \<open>The stock ledger of VSOL-MiNi: data model\<close>

text \<open>
  The API routes of the application (\<^verbatim>\<open>pages/api/purchase.js\<close>, \<^verbatim>\<open>sales.js\<close>,
  \<^verbatim>\<open>inventory.js\<close>, \<^verbatim>\<open>expenses.js\<close>, \<^verbatim>\<open>reports.js\<close>) are modelled as functions from
  a request and a database state to a response and a new database state. The tables
  follow \<^verbatim>\<open>sql/schema.sql\<close>.

  A number is the rational it denotes. The tables hold exact rationals, and the
  arithmetic of the database (\<^verbatim>\<open>quantity + ?\<close>, \<^verbatim>\<open>SUM\<close>) is exact; the rounding of a
  value to the two decimals of a \<^verbatim>\<open>DECIMAL(12,2)\<close> column is not modelled. The
  arithmetic that JavaScript does is binary64: it is modelled with its rounding in
  the subsection on binary64 arithmetic, for the totals of a sale (\<open>js_taxable_total\<close>,
  \<open>js_grand_total\<close>) and for the summary of the reports route. The sales route itself
  carries the totals as the exact sums (\<open>taxable_total\<close>), which is what the code
  computes whenever no product and no partial sum is rounded.

  A JSON field that is absent, \<^verbatim>\<open>undefined\<close> or \<^verbatim>\<open>null\<close> is \<open>None\<close>; numeric fields
  carry numbers, as the pages of the application send them (\<^verbatim>\<open>parseFloat\<close>,
  \<^verbatim>\<open>parseInt\<close>). A calendar day is an integer day number.
\<close>

type_synonym date = int

record inventory_row =
  inv_id :: int
  inv_item_name :: string
  inv_category :: string
  inv_hsn_sac :: "string option"
  inv_quantity :: rat
  inv_rate :: rat
  inv_specs :: "string option"

record purchase_row =
  pur_id :: int
  pur_item_id :: "int option"
  pur_quantity :: rat
  pur_rate :: rat
  pur_date :: date
  pur_vendor_name :: "string option"
  pur_invoice_number :: "string option"
  pur_cgst :: rat
  pur_sgst :: rat
  pur_igst :: rat

text \<open>One element of the \<^verbatim>\<open>items\<close> array of a sale, as the request carries it.\<close>

record line_item =
  item_id :: "int option"
  description :: "string option"
  hsn_sac :: "string option"
  quantity :: "rat option"
  rate :: "rat option"

record sale_row =
  sale_id :: int
  sale_invoice_number :: string
  sale_customer_name :: "string option"
  sale_customer_address :: "string option"
  sale_customer_gstin :: "string option"
  sale_place_of_supply :: "string option"
  sale_vehicle_no :: "string option"
  sale_items :: "line_item list"
  sale_taxable_total :: rat
  sale_cgst :: rat
  sale_sgst :: rat
  sale_igst :: rat
  sale_grand_total :: rat
  sale_date :: date

record expense_row =
  exp_id :: int
  exp_description :: string
  exp_amount :: rat
  exp_category :: "string option"
  exp_date :: date

text \<open>
  The database: the four tables and their \<^verbatim>\<open>AUTO_INCREMENT\<close> counters. No claim
  depends on the counters; a rolled-back transaction restores the whole record.
\<close>

record db =
  inventory :: "inventory_row list"
  purchases :: "purchase_row list"
  sales :: "sale_row list"
  expenses :: "expense_row list"
  next_inventory_id :: int
  next_purchase_id :: int
  next_sale_id :: int
  next_expense_id :: int

text \<open>
  The calls a handler makes on the pool and the connection. The environment says which
  of them throw (a lost connection, a rejected statement), gives the clock, and so
  makes every \<^verbatim>\<open>catch\<close> branch of the source reachable.
  \<open>UpdateInventory k\<close> is the \<^verbatim>\<open>UPDATE\<close> issued for the element at index \<open>k\<close> of
  the \<^verbatim>\<open>items\<close> array (index 0 for a purchase).
\<close>

datatype db_call =
    GetConnection
  | BeginTransaction
  | InsertPurchase
  | CountSales
  | InsertSale
  | UpdateInventory nat
  | Commit
  | InsertInventory
  | InsertExpense
  | SelectTotals

record env =
  current_year :: nat
  today :: date
  month_first :: date
  month_last :: date
  throws :: "db_call \<Rightarrow> bool"

text \<open>
  A JavaScript number: a finite binary64 value, given by the rational it denotes, an
  infinity or \<^verbatim>\<open>NaN\<close>. The two zeros are not told apart.
\<close>

datatype js_number = Finite rat | PosInfinity | NegInfinity | NaN

record summary =
  sum_sales :: js_number
  sum_purchases :: js_number
  sum_expenses :: js_number
  sum_netProfit :: js_number

datatype payload =
    Id int
  | Invoice string rat
  | Error string
  | Summary summary
  | SummaryDetail summary "sale_row list" "purchase_row list" "expense_row list"

datatype response = Response (status: nat) (payload: payload)

subsection \<open>JavaScript truthiness on JSON fields\<close>

text \<open>
  \<^verbatim>\<open>!x\<close> holds for a missing field and for the number 0 or the empty string;
  \<open>truthy x\<close> is the value of a field that passes \<^verbatim>\<open>!x\<close>, \<open>x || 0\<close> is \<open>or_zero x\<close>
  and \<open>s || null\<close> is \<open>or_null s\<close>.
\<close>

definition truthy :: "'a::zero option \<Rightarrow> 'a option" where
  "truthy x = (case x of None \<Rightarrow> None | Some v \<Rightarrow> if v = 0 then None else Some v)"

definition truthy_str :: "string option \<Rightarrow> string option" where
  "truthy_str s = (case s of None \<Rightarrow> None | Some v \<Rightarrow> if v = [] then None else Some v)"

definition or_zero :: "'a::zero option \<Rightarrow> 'a" where
  "or_zero x = (case x of None \<Rightarrow> 0 | Some v \<Rightarrow> v)"

definition or_null :: "string option \<Rightarrow> string option" where
  "or_null s = truthy_str s"

definition or_today :: "env \<Rightarrow> date option \<Rightarrow> date" where
  "or_today e d = (case d of None \<Rightarrow> today e | Some v \<Rightarrow> v)"

subsection \<open>Binary64 arithmetic\<close>

text \<open>
  IEEE 754 binary64 with rounding to nearest, ties to even. A positive rational \<open>x\<close>
  with \<open>2 ^ e \<le> x < 2 ^ (e + 1)\<close> is rounded to a multiple of \<open>2 ^ (e - 52)\<close>; below
  \<open>2 ^ (- 1022)\<close> the step stays \<open>2 ^ (- 1074)\<close> (subnormal numbers), and a result of
  \<open>2 ^ 1024\<close> or more is an infinity.
\<close>

text \<open>The number of binary digits of a positive integer.\<close>

function bit_length :: "int \<Rightarrow> int" where
  "bit_length n = (if n \<le> 0 then 0 else 1 + bit_length (n div 2))"
  by pat_completeness auto
termination
  by (relation "measure nat") auto

declare bit_length.simps [simp del]

definition pow2 :: "int \<Rightarrow> rat" where
  "pow2 k = (if 0 \<le> k then 2 ^ nat k else 1 / 2 ^ nat (- k))"

text \<open>For \<open>x > 0\<close>, the \<open>e\<close> with \<open>2 ^ e \<le> x < 2 ^ (e + 1)\<close>.\<close>

definition floor_log2 :: "rat \<Rightarrow> int" where
  "floor_log2 x =
     (if 1 \<le> x then bit_length \<lfloor>x\<rfloor> - 1 else - bit_length (\<lceil>1 / x\<rceil> - 1))"

definition round_half_even :: "rat \<Rightarrow> int" where
  "round_half_even z =
     (let f = \<lfloor>z\<rfloor>; r = z - of_int f
      in if r < 1 / 2 then f else if 1 / 2 < r then f + 1 else if even f then f else f + 1)"

definition double_exponent :: "rat \<Rightarrow> int" where
  "double_exponent x = max (floor_log2 \<bar>x\<bar>) (- 1022)"

definition double_significand :: "rat \<Rightarrow> int" where
  "double_significand x = round_half_even (\<bar>x\<bar> / pow2 (double_exponent x - 52))"

text \<open>The binary64 number nearest to a rational.\<close>

definition round_double :: "rat \<Rightarrow> js_number" where
  "round_double x =
     (if x = 0 then Finite 0
      else
        (let y = of_int (double_significand x) * pow2 (double_exponent x - 52)
         in if pow2 1024 \<le> y then (if 0 < x then PosInfinity else NegInfinity)
            else Finite (if 0 < x then y else - y)))"

text \<open>A rational that is a binary64 number: what a numeric JSON field holds.\<close>

definition is_double :: "rat \<Rightarrow> bool" where
  "is_double x = (round_double x = Finite x)"

fun js_neg :: "js_number \<Rightarrow> js_number" where
  "js_neg (Finite a) = Finite (- a)"
| "js_neg PosInfinity = NegInfinity"
| "js_neg NegInfinity = PosInfinity"
| "js_neg NaN = NaN"

text \<open>\<^verbatim>\<open>a + b\<close>, \<^verbatim>\<open>a - b\<close> and \<^verbatim>\<open>a * b\<close> on numbers.\<close>

fun js_add :: "js_number \<Rightarrow> js_number \<Rightarrow> js_number" where
  "js_add (Finite a) (Finite b) = round_double (a + b)"
| "js_add NaN _ = NaN"
| "js_add _ NaN = NaN"
| "js_add PosInfinity NegInfinity = NaN"
| "js_add NegInfinity PosInfinity = NaN"
| "js_add PosInfinity _ = PosInfinity"
| "js_add _ PosInfinity = PosInfinity"
| "js_add NegInfinity _ = NegInfinity"
| "js_add _ NegInfinity = NegInfinity"

definition js_sub :: "js_number \<Rightarrow> js_number \<Rightarrow> js_number" where
  "js_sub a b = js_add a (js_neg b)"


text \<open>
  \<^verbatim>\<open>parseFloat\<close> on the decimal text that the driver returns for a \<^verbatim>\<open>DECIMAL\<close> value:
  the binary64 number nearest to it.
\<close>

definition parse_float :: "rat \<Rightarrow> js_number" where
  "parse_float v = round_double v"

subsection \<open>Statements on a connection\<close>

text \<open>A statement returns \<open>None\<close> when the driver throws.\<close>

definition call :: "env \<Rightarrow> db_call \<Rightarrow> db \<Rightarrow> db option" where
  "call e c d = (if throws e c then None else Some d)"

text \<open>
  \<^verbatim>\<open>UPDATE inventory SET quantity = quantity + ? WHERE id = ?\<close>; a sale passes the
  negated quantity (\<^verbatim>\<open>quantity - ?\<close>). A statement that matches no row succeeds.
\<close>

definition update_inventory :: "env \<Rightarrow> nat \<Rightarrow> rat \<Rightarrow> int \<Rightarrow> db \<Rightarrow> db option" where
  "update_inventory e k delta i d =
     (if throws e (UpdateInventory k) then None
      else Some (d\<lparr>inventory :=
             map (\<lambda>r. if inv_id r = i then r\<lparr>inv_quantity := inv_quantity r + delta\<rparr> else r)
               (inventory d)\<rparr>))"

section \<open>Purchases\<close>

record purchase_body =
  pb_item_id :: "int option"
  pb_quantity :: "rat option"
  pb_rate :: "rat option"
  pb_date :: "date option"
  pb_vendor_name :: "string option"
  pb_invoice_number :: "string option"
  pb_cgst :: "rat option"
  pb_sgst :: "rat option"
  pb_igst :: "rat option"

text \<open>
  \<^verbatim>\<open>INSERT INTO purchases\<close>: the foreign key of \<^verbatim>\<open>purchases.item_id\<close> on
  \<^verbatim>\<open>inventory(id)\<close> rejects an item that does not exist.
\<close>

definition insert_purchase ::
  "env \<Rightarrow> int \<Rightarrow> rat \<Rightarrow> rat \<Rightarrow> purchase_body \<Rightarrow> db \<Rightarrow> (int \<times> db) option" where
  "insert_purchase e i q r b d =
     (if throws e InsertPurchase then None
      else if i \<notin> inv_id ` set (inventory d) then None
      else Some (next_purchase_id d,
        d\<lparr>purchases := purchases d @
             [\<lparr>pur_id = next_purchase_id d, pur_item_id = Some i, pur_quantity = q,
               pur_rate = r, pur_date = or_today e (pb_date b),
               pur_vendor_name = or_null (pb_vendor_name b),
               pur_invoice_number = or_null (pb_invoice_number b),
               pur_cgst = or_zero (pb_cgst b), pur_sgst = or_zero (pb_sgst b),
               pur_igst = or_zero (pb_igst b)\<rparr>],
          next_purchase_id := next_purchase_id d + 1\<rparr>))"

text \<open>The body of the inner \<^verbatim>\<open>try\<close>: \<open>None\<close> is a thrown error.\<close>

definition purchase_transaction ::
  "env \<Rightarrow> int \<Rightarrow> rat \<Rightarrow> rat \<Rightarrow> purchase_body \<Rightarrow> db \<Rightarrow> (int \<times> db) option" where
  "purchase_transaction e i q r b d = do {
     d0 \<leftarrow> call e BeginTransaction d;
     (pid, d1) \<leftarrow> insert_purchase e i q r b d0;
     d2 \<leftarrow> update_inventory e 0 q i d1;
     d3 \<leftarrow> call e Commit d2;
     Some (pid, d3)
   }"

text \<open>
  The \<^verbatim>\<open>POST\<close> branch of the purchase route. A failed transaction is rolled back: the
  state before the request is returned.
\<close>

definition purchase_handler :: "env \<Rightarrow> purchase_body \<Rightarrow> db \<Rightarrow> response \<times> db" where
  "purchase_handler e b d =
     (case (truthy (pb_item_id b), truthy (pb_quantity b), truthy (pb_rate b)) of
        (Some i, Some q, Some r) \<Rightarrow>
          (if throws e GetConnection
           then (Response 500 (Error ''Failed to record purchase''), d)
           else (case purchase_transaction e i q r b d of
                   Some (pid, d') \<Rightarrow> (Response 201 (Id pid), d')
                 | None \<Rightarrow> (Response 500 (Error ''Failed to record purchase''), d)))
      | _ \<Rightarrow> (Response 400 (Error ''Missing required fields''), d))"

section \<open>Sales\<close>

record taxes =
  cgst :: "rat option"
  sgst :: "rat option"
  igst :: "rat option"

record sale_body =
  sb_customer_name :: "string option"
  sb_customer_address :: "string option"
  sb_customer_gstin :: "string option"
  sb_place_of_supply :: "string option"
  sb_vehicle_no :: "string option"
  sb_items :: "line_item list option"
  sb_taxes :: "taxes option"

text \<open>\<^verbatim>\<open>taxes?.cgst || 0\<close>\<close>

definition tax_or_zero :: "taxes option \<Rightarrow> (taxes \<Rightarrow> rat option) \<Rightarrow> rat" where
  "tax_or_zero t f = (case t of None \<Rightarrow> 0 | Some v \<Rightarrow> or_zero (f v))"

text \<open>The \<^verbatim>\<open>forEach\<close> that accumulates \<^verbatim>\<open>taxableTotal\<close>.\<close>

definition taxable_total :: "line_item list \<Rightarrow> rat" where
  "taxable_total items =
     foldl (\<lambda>t item. t + or_zero (rate item) * or_zero (quantity item)) 0 items"






subsection \<open>The invoice number\<close>

text \<open>\<^verbatim>\<open>String(n)\<close> on a non-negative integer: its decimal digits.\<close>

definition digit_char :: "nat \<Rightarrow> char" where
  "digit_char k = ''0123456789'' ! (k mod 10)"

function string_of_nat :: "nat \<Rightarrow> string" where
  "string_of_nat n =
     (if n < 10 then [digit_char n] else string_of_nat (n div 10) @ [digit_char (n mod 10)])"
  by pat_completeness auto
termination
  by (relation "measure (\<lambda>n. n)") auto

declare string_of_nat.simps [simp del]

text \<open>\<^verbatim>\<open>s.padStart(n, c)\<close> with a one-character filler.\<close>

definition pad_start :: "nat \<Rightarrow> char \<Rightarrow> string \<Rightarrow> string" where
  "pad_start n c s = replicate (n - length s) c @ s"

text \<open>
  \<^verbatim>\<open>`INV-${new Date().getFullYear()}-${String(nextNumber).padStart(3, '0')}`\<close>
\<close>

definition invoice_number :: "nat \<Rightarrow> nat \<Rightarrow> string" where
  "invoice_number year nextNumber =
     ''INV-'' @ string_of_nat year @ ''-'' @ pad_start 3 (CHR ''0'') (string_of_nat nextNumber)"

text \<open>\<^verbatim>\<open>SELECT COUNT(*) AS count FROM sales\<close>\<close>

definition count_sales :: "env \<Rightarrow> db \<Rightarrow> nat option" where
  "count_sales e d = (if throws e CountSales then None else Some (length (sales d)))"

text \<open>
  \<^verbatim>\<open>INSERT INTO sales\<close>. The \<^verbatim>\<open>items\<close> column holds the array as sent
  (\<^verbatim>\<open>JSON.stringify(items)\<close>); it carries no foreign key.
\<close>

definition insert_sale ::
  "env \<Rightarrow> string \<Rightarrow> sale_body \<Rightarrow> line_item list \<Rightarrow> rat \<Rightarrow> rat \<Rightarrow> rat \<Rightarrow> rat \<Rightarrow> rat \<Rightarrow> db
     \<Rightarrow> db option" where
  "insert_sale e invoiceNumber b items taxableTotal c s i grandTotal d =
     (if throws e InsertSale then None
      else Some (d\<lparr>sales := sales d @
             [\<lparr>sale_id = next_sale_id d, sale_invoice_number = invoiceNumber,
               sale_customer_name = or_null (sb_customer_name b),
               sale_customer_address = or_null (sb_customer_address b),
               sale_customer_gstin = or_null (sb_customer_gstin b),
               sale_place_of_supply = or_null (sb_place_of_supply b),
               sale_vehicle_no = or_null (sb_vehicle_no b),
               sale_items = items, sale_taxable_total = taxableTotal,
               sale_cgst = c, sale_sgst = s, sale_igst = i,
               sale_grand_total = grandTotal, sale_date = today e\<rparr>],
          next_sale_id := next_sale_id d + 1\<rparr>))"

text \<open>
  The loop that decreases the quantities: \<open>k\<close> is the index of the current element.
  An element with \<^verbatim>\<open>q > 0 && item.item_id\<close> false issues no statement.
\<close>

fun update_quantities :: "env \<Rightarrow> nat \<Rightarrow> line_item list \<Rightarrow> db \<Rightarrow> db option" where
  "update_quantities e k [] d = Some d"
| "update_quantities e k (item # rest) d =
     (let q = or_zero (quantity item) in
      if q > 0 then
        (case truthy (item_id item) of
           Some i \<Rightarrow>
             (case update_inventory e k (- q) i d of
                None \<Rightarrow> None
              | Some d' \<Rightarrow> update_quantities e (Suc k) rest d')
         | None \<Rightarrow> update_quantities e (Suc k) rest d)
      else update_quantities e (Suc k) rest d)"

definition sales_transaction ::
  "env \<Rightarrow> sale_body \<Rightarrow> line_item list \<Rightarrow> rat \<Rightarrow> rat \<Rightarrow> rat \<Rightarrow> rat \<Rightarrow> rat \<Rightarrow> db
     \<Rightarrow> (string \<times> db) option" where
  "sales_transaction e b items taxableTotal c s i grandTotal d = do {
     d0 \<leftarrow> call e BeginTransaction d;
     count \<leftarrow> count_sales e d0;
     let invoiceNumber = invoice_number (current_year e) (count + 1);
     d1 \<leftarrow> insert_sale e invoiceNumber b items taxableTotal c s i grandTotal d0;
     d2 \<leftarrow> update_quantities e 0 items d1;
     d3 \<leftarrow> call e Commit d2;
     Some (invoiceNumber, d3)
   }"

text \<open>The \<^verbatim>\<open>POST\<close> branch of the sales route.\<close>

definition sales_handler :: "env \<Rightarrow> sale_body \<Rightarrow> db \<Rightarrow> response \<times> db" where
  "sales_handler e b d =
     (case sb_items b of
        None \<Rightarrow> (Response 400 (Error ''Items are required''), d)
      | Some items \<Rightarrow>
          if items = [] then (Response 400 (Error ''Items are required''), d)
          else
            (let taxableTotal = taxable_total items;
                 c = tax_or_zero (sb_taxes b) cgst;
                 s = tax_or_zero (sb_taxes b) sgst;
                 i = tax_or_zero (sb_taxes b) igst;
                 grandTotal = taxableTotal + c + s + i
             in if throws e GetConnection
                then (Response 500 (Error ''Failed to create invoice''), d)
                else (case sales_transaction e b items taxableTotal c s i grandTotal d of
                        Some (invoiceNumber, d') \<Rightarrow>
                          (Response 201 (Invoice invoiceNumber grandTotal), d')
                      | None \<Rightarrow> (Response 500 (Error ''Failed to create invoice''), d))))"

section \<open>Inventory items and expenses\<close>

record inventory_body =
  ib_item_name :: "string option"
  ib_category :: "string option"
  ib_hsn_sac :: "string option"
  ib_quantity :: "rat option"
  ib_rate :: "rat option"
  ib_specs :: "(string \<times> string) list option"

text \<open>
  \<^verbatim>\<open>JSON.stringify\<close> on the \<^verbatim>\<open>specs\<close> object that the inventory page sends: its
  properties, in order, with text values. A quotation mark, a backslash and the
  control characters are escaped.
\<close>

definition hex_digit :: "nat \<Rightarrow> char" where
  "hex_digit k = ''0123456789abcdef'' ! (k mod 16)"

definition json_escape :: "char \<Rightarrow> string" where
  "json_escape c =
     (if c = CHR 0x22 then [CHR 0x5C, CHR 0x22]
      else if c = CHR 0x5C then [CHR 0x5C, CHR 0x5C]
      else if c = CHR 0x08 then [CHR 0x5C, CHR ''b'']
      else if c = CHR 0x09 then [CHR 0x5C, CHR ''t'']
      else if c = CHR 0x0A then [CHR 0x5C, CHR ''n'']
      else if c = CHR 0x0C then [CHR 0x5C, CHR ''f'']
      else if c = CHR 0x0D then [CHR 0x5C, CHR ''r'']
      else if (of_char c :: nat) < 32
        then [CHR 0x5C, CHR ''u'', CHR ''0'', CHR ''0'',
              hex_digit (of_char c div 16), hex_digit (of_char c)]
      else [c])"

definition json_string :: "string \<Rightarrow> string" where
  "json_string s = [CHR 0x22] @ concat (map json_escape s) @ [CHR 0x22]"

fun join_commas :: "string list \<Rightarrow> string" where
  "join_commas [] = []"
| "join_commas [x] = x"
| "join_commas (x # y # ys) = x @ '','' @ join_commas (y # ys)"

definition json_stringify :: "(string \<times> string) list \<Rightarrow> string" where
  "json_stringify props =
     ''{'' @ join_commas (map (\<lambda>(k, v). json_string k @ '':'' @ json_string v) props) @ ''}''"

text \<open>
  The \<^verbatim>\<open>POST\<close> branch of the inventory route: one statement on the pool. An object is
  truthy, so \<^verbatim>\<open>specs ? JSON.stringify(specs) : null\<close> is the text of the object when
  there is one.
\<close>

definition inventory_handler :: "env \<Rightarrow> inventory_body \<Rightarrow> db \<Rightarrow> response \<times> db" where
  "inventory_handler e b d =
     (case (truthy_str (ib_item_name b), truthy_str (ib_category b),
            truthy (ib_quantity b), truthy (ib_rate b)) of
        (Some n, Some c, Some q, Some r) \<Rightarrow>
          (if throws e InsertInventory
           then (Response 500 (Error ''Failed to create inventory item''), d)
           else (Response 201 (Id (next_inventory_id d)),
                 d\<lparr>inventory := inventory d @
                      [\<lparr>inv_id = next_inventory_id d, inv_item_name = n, inv_category = c,
                        inv_hsn_sac = or_null (ib_hsn_sac b), inv_quantity = q, inv_rate = r,
                        inv_specs = map_option json_stringify (ib_specs b)\<rparr>],
                   next_inventory_id := next_inventory_id d + 1\<rparr>))
      | _ \<Rightarrow> (Response 400 (Error ''Missing required fields''), d))"

record expense_body =
  eb_description :: "string option"
  eb_amount :: "rat option"
  eb_category :: "string option"
  eb_date :: "date option"

text \<open>The \<^verbatim>\<open>POST\<close> branch of the expenses route.\<close>

definition expenses_handler :: "env \<Rightarrow> expense_body \<Rightarrow> db \<Rightarrow> response \<times> db" where
  "expenses_handler e b d =
     (case (truthy_str (eb_description b), truthy (eb_amount b)) of
        (Some descr, Some a) \<Rightarrow>
          (if throws e InsertExpense
           then (Response 500 (Error ''Failed to record expense''), d)
           else (Response 201 (Id (next_expense_id d)),
                 d\<lparr>expenses := expenses d @
                      [\<lparr>exp_id = next_expense_id d, exp_description = descr, exp_amount = a,
                        exp_category = or_null (eb_category b),
                        exp_date = or_today e (eb_date b)\<rparr>],
                   next_expense_id := next_expense_id d + 1\<rparr>))
      | _ \<Rightarrow> (Response 400 (Error ''Description and amount are required''), d))"

section \<open>Reports\<close>

record report_query =
  rq_from :: "date option"
  rq_to :: "date option"
  rq_detail :: bool

text \<open>
  SQL aggregation: \<^verbatim>\<open>SUM\<close> over no row is \<^verbatim>\<open>NULL\<close>, \<^verbatim>\<open>IFNULL(x, 0)\<close> replaces it,
  \<^verbatim>\<open>x BETWEEN a AND b\<close> includes both ends.
\<close>

definition sql_sum :: "rat list \<Rightarrow> rat option" where
  "sql_sum xs = (if xs = [] then None else Some (foldl (+) 0 xs))"

definition ifnull :: "rat option \<Rightarrow> rat \<Rightarrow> rat" where
  "ifnull x dflt = (case x of None \<Rightarrow> dflt | Some v \<Rightarrow> v)"

definition between :: "date \<Rightarrow> date \<Rightarrow> date \<Rightarrow> bool" where
  "between x a b = (a \<le> x \<and> x \<le> b)"

text \<open>
  The reports route. With \<^verbatim>\<open>from\<close> and \<^verbatim>\<open>to\<close> the window is the one given; otherwise
  it is the current month, whose two ends the environment supplies.
\<close>

definition reports_handler :: "env \<Rightarrow> report_query \<Rightarrow> db \<Rightarrow> response \<times> db" where
  "reports_handler e q d =
     (let (fromStr, toStr) =
            (case (rq_from q, rq_to q) of
               (Some f, Some t) \<Rightarrow> (f, t)
             | _ \<Rightarrow> (month_first e, month_last e))
      in if throws e SelectTotals
         then (Response 500 (Error ''Failed to fetch reports''), d)
         else
           (let in_range_sales = filter (\<lambda>s. between (sale_date s) fromStr toStr) (sales d);
                in_range_purchases =
                  filter (\<lambda>p. between (pur_date p) fromStr toStr) (purchases d);
                in_range_expenses =
                  filter (\<lambda>x. between (exp_date x) fromStr toStr) (expenses d);
                total_sales = ifnull (sql_sum (map sale_grand_total in_range_sales)) 0;
                total_purchases =
                  ifnull (sql_sum (map (\<lambda>p. pur_quantity p * pur_rate p) in_range_purchases)) 0;
                total_expenses = ifnull (sql_sum (map exp_amount in_range_expenses)) 0;
                sales = parse_float total_sales;
                purchases = parse_float total_purchases;
                expenses = parse_float total_expenses;
                summary = \<lparr>sum_sales = sales, sum_purchases = purchases,
                           sum_expenses = expenses,
                           sum_netProfit = js_sub sales (js_add purchases expenses)\<rparr>
            in if rq_detail q
               then (Response 200
                       (SummaryDetail summary in_range_sales in_range_purchases in_range_expenses),
                     d)
               else (Response 200 (Summary summary), d)))"

definition summary_of :: "payload \<Rightarrow> summary option" where
  "summary_of p =
     (case p of Summary s \<Rightarrow> Some s | SummaryDetail s _ _ _ \<Rightarrow> Some s | _ \<Rightarrow> None)"

text \<open>
  The summary as the specification words it, in exact arithmetic: each total is the
  sum over the records whose date lies in the window, the net profit is sales less
  purchases and expenses.
\<close>

record exact_summary =
  exact_sales :: rat
  exact_purchases :: rat
  exact_expenses :: rat
  exact_netProfit :: rat

definition spec_summarize :: "date \<Rightarrow> date \<Rightarrow> db \<Rightarrow> exact_summary" where
  "spec_summarize fromDate toDate d =
     (let totalSales =
            (\<Sum>s\<leftarrow>sales d. if fromDate \<le> sale_date s \<and> sale_date s \<le> toDate
                          then sale_grand_total s else 0);
          totalPurchases =
            (\<Sum>p\<leftarrow>purchases d. if fromDate \<le> pur_date p \<and> pur_date p \<le> toDate
                              then pur_quantity p * pur_rate p else 0);
          totalExpenses =
            (\<Sum>x\<leftarrow>expenses d. if fromDate \<le> exp_date x \<and> exp_date x \<le> toDate
                             then exp_amount x else 0)
      in \<lparr>exact_sales = totalSales, exact_purchases = totalPurchases,
          exact_expenses = totalExpenses,
          exact_netProfit = totalSales - (totalPurchases + totalExpenses)\<rparr>)"

section \<open>Ledger sums, sequences of requests, the invoice format\<close>

text \<open>The guard \<^verbatim>\<open>q > 0 && item.item_id\<close> of the loop over the sold items.\<close>

definition deducts :: "line_item \<Rightarrow> bool" where
  "deducts l = (or_zero (quantity l) > 0 \<and> truthy (item_id l) \<noteq> None)"

text \<open>What the elements of one \<^verbatim>\<open>items\<close> array that pass the guard take from item \<open>i\<close>.\<close>

definition deducted_quantity :: "line_item list \<Rightarrow> int \<Rightarrow> rat" where
  "deducted_quantity items i =
     (\<Sum>l\<leftarrow>items. if deducts l \<and> item_id l = Some i then or_zero (quantity l) else 0)"

text \<open>The inventory rows once every element that passes the guard has been deducted.\<close>

definition after_sale :: "line_item list \<Rightarrow> inventory_row list \<Rightarrow> inventory_row list" where
  "after_sale items rows =
     map (\<lambda>r. r\<lparr>inv_quantity := inv_quantity r - deducted_quantity items (inv_id r)\<rparr>) rows"





text \<open>
  Requests served one after the other, each in its own environment; the responses are
  collected in order.
\<close>

datatype request = RecordPurchase purchase_body | RecordSale sale_body

definition step :: "env \<Rightarrow> request \<Rightarrow> db \<Rightarrow> response \<times> db" where
  "step e rq d =
     (case rq of RecordPurchase b \<Rightarrow> purchase_handler e b d | RecordSale b \<Rightarrow> sales_handler e b d)"

fun run :: "(env \<times> request) list \<Rightarrow> db \<Rightarrow> response list \<times> db" where
  "run [] d = ([], d)"
| "run ((e, rq) # rest) d =
     (case step e rq d of (rsp, d1) \<Rightarrow> (case run rest d1 of (rs, d2) \<Rightarrow> (rsp # rs, d2)))"

fun invoices_of :: "response list \<Rightarrow> string list" where
  "invoices_of [] = []"
| "invoices_of (Response st (Invoice n g) # rs) = n # invoices_of rs"
| "invoices_of (_ # rs) = invoices_of rs"

text \<open>
  The calls a sale with a non-empty \<^verbatim>\<open>items\<close> array issues when none throws, in
  order.
\<close>

definition sale_calls :: "line_item list \<Rightarrow> db_call list" where
  "sale_calls items =
     [GetConnection, BeginTransaction, CountSales, InsertSale]
     @ map UpdateInventory (filter (\<lambda>k. deducts (items ! k)) [0..<length items])
     @ [Commit]"

text \<open>The pattern \<^verbatim>\<open>INV-\d{4}-\d{3,}\<close> on the whole string.\<close>

definition is_digit :: "char \<Rightarrow> bool" where
  "is_digit c = (c \<in> set ''0123456789'')"

definition matches_invoice_format :: "string \<Rightarrow> bool" where
  "matches_invoice_format s =
     (take 4 s = ''INV-'' \<and> length (take 4 (drop 4 s)) = 4 \<and> list_all is_digit (take 4 (drop 4 s))
      \<and> take 1 (drop 8 s) = ''-'' \<and> 3 \<le> length (drop 9 s) \<and> list_all is_digit (drop 9 s))"

text \<open>The sequence number read back from an invoice number with a four-digit year.\<close>

definition digit_value :: "char \<Rightarrow> nat" where
  "digit_value c = of_char c - 48"

definition nat_of_digits :: "string \<Rightarrow> nat" where
  "nat_of_digits s = foldl (\<lambda>a c. 10 * a + digit_value c) 0 s"

definition sequence_of :: "string \<Rightarrow> nat" where
  "sequence_of s = nat_of_digits (drop 9 s)"

section \<open>The scenarios of the specification\<close>

definition all_calls_succeed :: "db_call \<Rightarrow> bool" where
  "all_calls_succeed c = False"

definition env_2024 :: env where
  "env_2024 = \<lparr>current_year = 2024, today = 19800, month_first = 19783, month_last = 19813,
                throws = all_calls_succeed\<rparr>"

definition widget :: inventory_row where
  "widget = \<lparr>inv_id = 1, inv_item_name = ''Widget'', inv_category = ''Other'',
             inv_hsn_sac = None, inv_quantity = 100, inv_rate = 10, inv_specs = None\<rparr>"

definition empty_db :: db where
  "empty_db = \<lparr>inventory = [], purchases = [], sales = [], expenses = [],
               next_inventory_id = 1, next_purchase_id = 1, next_sale_id = 1,
               next_expense_id = 1\<rparr>"

definition widget_db :: db where
  "widget_db = empty_db\<lparr>inventory := [widget], next_inventory_id := 2\<rparr>"

definition purchase_of :: "int \<Rightarrow> rat \<Rightarrow> rat \<Rightarrow> purchase_body" where
  "purchase_of i q r =
     \<lparr>pb_item_id = Some i, pb_quantity = Some q, pb_rate = Some r, pb_date = None,
      pb_vendor_name = None, pb_invoice_number = None, pb_cgst = None, pb_sgst = None,
      pb_igst = None\<rparr>"

definition line_of :: "int \<Rightarrow> rat \<Rightarrow> rat \<Rightarrow> line_item" where
  "line_of i q r =
     \<lparr>item_id = Some i, description = None, hsn_sac = None, quantity = Some q, rate = Some r\<rparr>"

definition sale_of :: "line_item list \<Rightarrow> rat \<Rightarrow> rat \<Rightarrow> rat \<Rightarrow> sale_body" where
  "sale_of items c s i =
     \<lparr>sb_customer_name = None, sb_customer_address = None, sb_customer_gstin = None,
      sb_place_of_supply = None, sb_vehicle_no = None, sb_items = Some items,
      sb_taxes = Some \<lparr>cgst = Some c, sgst = Some s, igst = Some i\<rparr>\<rparr>"

text \<open>An environment in which the update for the element at index 1 throws.\<close>

definition env_update_1_fails :: env where
  "env_update_1_fails = env_2024\<lparr>throws := (\<lambda>c. c = UpdateInventory 1)\<rparr>"


definition unknown_item_sale :: sale_body where
  "unknown_item_sale = sale_of [line_of 99 5 10] 0 0 0"

text \<open>An expense of 50, and the request that creates the widget.\<close>

definition rent :: expense_body where
  "rent = \<lparr>eb_description = Some ''Rent'', eb_amount = Some 50, eb_category = None,
           eb_date = None\<rparr>"

definition widget_body :: inventory_body where
  "widget_body = \<lparr>ib_item_name = Some ''Widget'', ib_category = Some ''Other'', ib_hsn_sac = None,
     ib_quantity = Some 100, ib_rate = Some 10, ib_specs = None\<rparr>"

text \<open>Scenario A: the widget with a purchase of 50 at 9.00.\<close>

definition scenario_A_db :: db where
  "scenario_A_db = snd (purchase_handler env_2024 (purchase_of 1 50 9) widget_db)"

text \<open>Scenario B: from A, a sale of 30 at 10.00 with taxes 5, 5 and 0.\<close>

definition scenario_B_db :: db where
  "scenario_B_db = snd (sales_handler env_2024 (sale_of [line_of 1 30 10] 5 5 0) scenario_A_db)"

text \<open>Scenario D: B and one expense of 50.\<close>

definition scenario_D_db :: db where
  "scenario_D_db = snd (expenses_handler env_2024 rent scenario_B_db)"



text \<open>Two sales with a rejected purchase between them.\<close>

definition two_sales_requests :: "(env \<times> request) list" where
  "two_sales_requests =
     [(env_2024, RecordSale (sale_of [line_of 1 30 10] 5 5 0)),
      (env_2024, RecordPurchase (purchase_of 1 0 9)),
      (env_2024, RecordSale (sale_of [line_of 1 20 10] 0 0 0))]"


definition tenths_db :: db where
  "tenths_db = widget_db
     \<lparr>purchases :=
        [\<lparr>pur_id = 1, pur_item_id = Some 1, pur_quantity = 1, pur_rate = 1 / 10,
          pur_date = 19800, pur_vendor_name = None, pur_invoice_number = None,
          pur_cgst = 0, pur_sgst = 0, pur_igst = 0\<rparr>],
      sales :=
        [\<lparr>sale_id = 1, sale_invoice_number = ''INV-2024-001'', sale_customer_name = None,
          sale_customer_address = None, sale_customer_gstin = None,
          sale_place_of_supply = None, sale_vehicle_no = None,
          sale_items = [line_of 1 3 (1 / 10)], sale_taxable_total = 3 / 10, sale_cgst = 0,
          sale_sgst = 0, sale_igst = 0, sale_grand_total = 3 / 10, sale_date = 19800\<rparr>],
      expenses :=
        [\<lparr>exp_id = 1, exp_description = ''Tea'', exp_amount = 1 / 5, exp_category = None,
          exp_date = 19800\<rparr>]\<rparr>"

text \<open>The window of Scenario D: the month around the day of the requests.\<close>

definition scenario_window :: report_query where
  "scenario_window = \<lparr>rq_from = Some 19783, rq_to = Some 19813, rq_detail = False\<rparr>"

section \<open>Purchases: what a request does\<close>

lemmas scenario_defs = env_2024_def all_calls_succeed_def widget_def empty_db_def widget_db_def
  purchase_of_def line_of_def sale_of_def
lemmas js_defs = truthy_def truthy_str_def or_zero_def or_null_def or_today_def
lemmas purchase_defs = purchase_handler_def purchase_transaction_def call_def insert_purchase_def
  update_inventory_def






section \<open>Sales: what a request does\<close>

lemma after_sale_Nil: "after_sale [] rows = rows"
  by (simp add: after_sale_def deducted_quantity_def)

lemma after_sale_skip: "\<not> deducts l \<Longrightarrow> after_sale (l # items) rows = after_sale items rows"
  by (simp add: after_sale_def deducted_quantity_def)

lemma after_sale_deduct:
  assumes "or_zero (quantity l) > 0" and "truthy (item_id l) = Some i"
  shows "after_sale (l # items) rows =
         after_sale items
           (map (\<lambda>r. if inv_id r = i then r\<lparr>inv_quantity := inv_quantity r + - or_zero (quantity l)\<rparr> else r) rows)"
proof -
  from assms have "deducts l" and "item_id l = Some i"
    by (auto simp: deducts_def truthy_def split: option.splits if_splits)
  then show ?thesis
    by (auto simp: after_sale_def deducted_quantity_def)
qed

lemma update_quantities_eq:
  "update_quantities e k items d =
     (if \<exists>j<length items. deducts (items ! j) \<and> throws e (UpdateInventory (k + j)) then None
      else Some (d\<lparr>inventory := after_sale items (inventory d)\<rparr>))"
proof (induction items arbitrary: k d)
  case Nil
  show ?case by (simp add: after_sale_Nil)
next
  case (Cons l items)
  show ?case
  proof (cases "deducts l")
    case False
    then have "update_quantities e k (l # items) d = update_quantities e (Suc k) items d"
      by (auto simp: deducts_def Let_def split: option.splits)
    with False show ?thesis
      by (auto simp: Cons.IH after_sale_skip Ex_less_Suc2)
  next
    case True
    then obtain i where q: "or_zero (quantity l) > 0" and i: "truthy (item_id l) = Some i"
      by (auto simp: deducts_def)
    show ?thesis
    proof (cases "throws e (UpdateInventory k)")
      case True
      with q i \<open>deducts l\<close> show ?thesis
        by (auto simp: Let_def update_inventory_def Ex_less_Suc2)
    next
      case False
      with q i \<open>deducts l\<close> show ?thesis
        by (auto simp: Let_def update_inventory_def Cons.IH after_sale_deduct [OF q i] Ex_less_Suc2)
    qed
  qed
qed


lemma throws_sale_calls:
  "(\<exists>c\<in>set (sale_calls items). throws e c) \<longleftrightarrow>
     throws e GetConnection \<or> throws e BeginTransaction \<or> throws e CountSales \<or> throws e InsertSale
     \<or> (\<exists>j<length items. deducts (items ! j) \<and> throws e (UpdateInventory j)) \<or> throws e Commit"
  by (auto simp: sale_calls_def)

lemma sales_handler_eq:
  assumes "sb_items b = Some items" and "items \<noteq> []"
  shows "sales_handler e b d =
     (if \<exists>c\<in>set (sale_calls items). throws e c
      then (Response 500 (Error ''Failed to create invoice''), d)
      else (Response 201 (Invoice (invoice_number (current_year e) (Suc (length (sales d))))
               (taxable_total items + tax_or_zero (sb_taxes b) cgst + tax_or_zero (sb_taxes b) sgst
                  + tax_or_zero (sb_taxes b) igst)),
            d\<lparr>sales := sales d @
                 [\<lparr>sale_id = next_sale_id d,
                   sale_invoice_number = invoice_number (current_year e) (Suc (length (sales d))),
                   sale_customer_name = or_null (sb_customer_name b),
                   sale_customer_address = or_null (sb_customer_address b),
                   sale_customer_gstin = or_null (sb_customer_gstin b),
                   sale_place_of_supply = or_null (sb_place_of_supply b),
                   sale_vehicle_no = or_null (sb_vehicle_no b),
                   sale_items = items, sale_taxable_total = taxable_total items,
                   sale_cgst = tax_or_zero (sb_taxes b) cgst,
                   sale_sgst = tax_or_zero (sb_taxes b) sgst,
                   sale_igst = tax_or_zero (sb_taxes b) igst,
                   sale_grand_total = taxable_total items + tax_or_zero (sb_taxes b) cgst
                      + tax_or_zero (sb_taxes b) sgst + tax_or_zero (sb_taxes b) igst,
                   sale_date = today e\<rparr>],
              next_sale_id := next_sale_id d + 1,
              inventory := after_sale items (inventory d)\<rparr>))"
  using assms
  by (auto simp: sales_handler_def sales_transaction_def call_def count_sales_def insert_sale_def
        update_quantities_eq throws_sale_calls Let_def)

lemma sales_handler_400:
  assumes "sb_items b = None \<or> sb_items b = Some []"
  shows "sales_handler e b d = (Response 400 (Error ''Items are required''), d)"
  using assms by (auto simp: sales_handler_def)



text \<open>
  C3. A sale with a non-empty \<^verbatim>\<open>items\<close> array in which any call of the transaction
  throws (taking the connection, \<^verbatim>\<open>BEGIN\<close>, the count, the insert of the sale record,
  the update for any element that passes the guard, or the commit) answers 500 and
  leaves the database as it was before the request: no quantity is changed and no sale
  record is added. In the witness the update for the second of two elements throws,
  after the first update has run.
\<close>

theorem sale_atomic:
  assumes "sb_items b = Some items" and "items \<noteq> []"
    and "c \<in> set (sale_calls items)" and "throws e c"
  shows "sales_handler e b d = (Response 500 (Error ''Failed to create invoice''), d)"
  using sales_handler_eq [OF assms(1,2), of e d] assms(3,4) by auto

lemma invoice_2024_1: "invoice_number 2024 (Suc 0) = ''INV-2024-001''"
  by (simp add: invoice_number_def pad_start_def string_of_nat.simps digit_char_def numeral_2_eq_2)

lemma scenario_A_db_eq:
  "scenario_A_db = widget_db\<lparr>inventory := [widget\<lparr>inv_quantity := 150\<rparr>],
      purchases := [\<lparr>pur_id = 1, pur_item_id = Some 1, pur_quantity = 50, pur_rate = 9,
           pur_date = 19800, pur_vendor_name = None,
           pur_invoice_number = None, pur_cgst = 0, pur_sgst = 0,
           pur_igst = 0\<rparr>], next_purchase_id := 2\<rparr>"
  by (simp add: scenario_A_db_def purchase_defs scenario_defs js_defs)

theorem sale_atomic_witness:
  "sales_handler env_update_1_fails (sale_of [line_of 1 30 10, line_of 1 20 10] 5 5 0) scenario_A_db
     = (Response 500 (Error ''Failed to create invoice''), scenario_A_db)
   \<and> map inv_quantity (inventory scenario_A_db) = [150] \<and> sales scenario_A_db = []"
proof -
  have 1: "sb_items (sale_of [line_of 1 30 10, line_of 1 20 10] 5 5 0)
             = Some [line_of 1 30 10, line_of 1 20 10]"
    by (simp add: sale_of_def)
  have 2: "[line_of 1 30 10, line_of 1 20 10] \<noteq> []" by simp
  have 3: "UpdateInventory 1 \<in> set (sale_calls [line_of 1 30 10, line_of 1 20 10])"
    by (simp add: sale_calls_def deducts_def line_of_def js_defs upt_rec)
  have 4: "throws env_update_1_fails (UpdateInventory 1)"
    by (simp add: env_update_1_fails_def)
  from sale_atomic [OF 1 2 3 4, of scenario_A_db] show ?thesis
    by (simp add: scenario_A_db_eq scenario_defs)
qed


lemma scenario_B_db_eq:
  "inventory scenario_B_db = [widget\<lparr>inv_quantity := 120\<rparr>]
   \<and> map sale_taxable_total (sales scenario_B_db) = [300]
   \<and> map sale_grand_total (sales scenario_B_db) = [310]
   \<and> map sale_date (sales scenario_B_db) = [19800]
   \<and> map sale_items (sales scenario_B_db) = [[line_of 1 30 10]]
   \<and> purchases scenario_B_db = purchases scenario_A_db
   \<and> expenses scenario_B_db = []"
proof -
  have 1: "sb_items (sale_of [line_of 1 30 10] 5 5 0) = Some [line_of 1 30 10]"
    by (simp add: sale_of_def)
  have 2: "[line_of 1 30 10] \<noteq> []" by simp
  show ?thesis
    unfolding scenario_B_db_def sales_handler_eq [OF 1 2]
    by (simp add: sale_calls_def scenario_defs scenario_A_db_eq after_sale_def deducted_quantity_def
          deducts_def taxable_total_def tax_or_zero_def js_defs)
qed

lemma deducted_quantity_remove1:
  assumes "l \<in> set items" and "\<not> (deducts l \<and> item_id l = Some i)"
  shows "deducted_quantity items i = deducted_quantity (remove1 l items) i"
  using assms unfolding deducted_quantity_def
  by (subst sum_list_map_remove1 [of l items]) auto




text \<open>
  C1, as the code has it. A sale with an element \<open>l\<close> whose \<^verbatim>\<open>item_id\<close> is not the id
  of any inventory row is not rejected: when no call throws it answers 201, a sale
  record holding all the elements is added, and the inventory is the one the other
  elements alone produce (unchanged when \<open>l\<close> is the only element).
\<close>

theorem sale_unknown_item_accepted:
  assumes "sb_items b = Some items" and "l \<in> set items"
    and "item_id l = Some i" and "i \<notin> inv_id ` set (inventory d)"
    and "\<forall>c\<in>set (sale_calls items). \<not> throws e c"
  shows "\<exists>rsp d' s. sales_handler e b d = (rsp, d') \<and> status rsp = 201
     \<and> sales d' = sales d @ [s] \<and> sale_items s = items
     \<and> inventory d' = after_sale (remove1 l items) (inventory d)
     \<and> (items = [l] \<longrightarrow> inventory d' = inventory d)"
proof -
  from assms(2) have ne: "items \<noteq> []" by auto
  have "deducted_quantity items (inv_id r) = deducted_quantity (remove1 l items) (inv_id r)"
    if "r \<in> set (inventory d)" for r
  proof -
    from that assms(3,4) have "\<not> (deducts l \<and> item_id l = Some (inv_id r))" by auto
    with assms(2) show ?thesis by (rule deducted_quantity_remove1)
  qed
  then have inv: "after_sale items (inventory d) = after_sale (remove1 l items) (inventory d)"
    unfolding after_sale_def by simp
  show ?thesis
    using sales_handler_eq [OF assms(1) ne, of e d] assms(5) inv
    by (auto simp: after_sale_Nil)
qed

lemma unknown_item_sale_run:
  "sales_handler env_2024 unknown_item_sale widget_db =
     (Response 201 (Invoice ''INV-2024-001'' 50),
      widget_db\<lparr>sales := [\<lparr>sale_id = 1, sale_invoice_number = ''INV-2024-001'',
                   sale_customer_name = None, sale_customer_address = None,
                   sale_customer_gstin = None, sale_place_of_supply = None,
                   sale_vehicle_no = None, sale_items = [line_of 99 5 10],
                   sale_taxable_total = 50, sale_cgst = 0, sale_sgst = 0, sale_igst = 0,
                   sale_grand_total = 50, sale_date = 19800\<rparr>],
                 next_sale_id := 2\<rparr>)"
proof -
  have 1: "sb_items unknown_item_sale = Some [line_of 99 5 10]"
    by (simp add: unknown_item_sale_def sale_of_def)
  have 2: "[line_of 99 5 10] \<noteq> []" by simp
  show ?thesis
    unfolding sales_handler_eq [OF 1 2]
    by (simp add: unknown_item_sale_def sale_calls_def scenario_defs invoice_2024_1 after_sale_def
          deducted_quantity_def deducts_def taxable_total_def tax_or_zero_def js_defs)
qed

text \<open>
  C1 as stated fails: a sale of item 99, which the inventory does not hold, answers
  201 and its record is stored.
\<close>

theorem sale_unknown_item_counterexample:
  "fst (sales_handler env_2024 unknown_item_sale widget_db)
     = Response 201 (Invoice ''INV-2024-001'' 50)
   \<and> 99 \<notin> inv_id ` set (inventory widget_db)
   \<and> map sale_items (sales (snd (sales_handler env_2024 unknown_item_sale widget_db)))
       = [[line_of 99 5 10]]
   \<and> sales widget_db = []"
  by (simp add: unknown_item_sale_run) (simp add: scenario_defs)

theorem sale_unknown_item_accepted_witness:
  "status (fst (sales_handler env_2024 unknown_item_sale widget_db)) = 201
   \<and> length (sales (snd (sales_handler env_2024 unknown_item_sale widget_db))) = 1
   \<and> inventory (snd (sales_handler env_2024 unknown_item_sale widget_db)) = inventory widget_db"
proof -
  have 1: "sb_items unknown_item_sale = Some [line_of 99 5 10]"
    by (simp add: unknown_item_sale_def sale_of_def)
  have 2: "line_of 99 5 10 \<in> set [line_of 99 5 10]" by simp
  have 3: "item_id (line_of 99 5 10) = Some 99" by (simp add: line_of_def)
  have 4: "99 \<notin> inv_id ` set (inventory widget_db)" by (simp add: scenario_defs)
  have 5: "\<forall>c\<in>set (sale_calls [line_of 99 5 10]). \<not> throws env_2024 c"
    by (simp add: scenario_defs)
  from sale_unknown_item_accepted [OF 1 2 3 4 5] show ?thesis
    by (auto simp: scenario_defs)
qed

section \<open>The totals of a sale in binary64\<close>

text \<open>
  Evaluating the rounding on given numbers: the exponent, then the significand, then
  the result.
\<close>

lemma floor_numeral_div [simp]: "\<lfloor>numeral a / numeral b :: rat\<rfloor> = numeral a div numeral b"
  using floor_divide_of_int_eq [of "numeral a" "numeral b", where ?'a = rat] by simp

lemma ceiling_numeral_div [simp]:
  "\<lceil>numeral a / numeral b :: rat\<rceil> = - ((- numeral a) div numeral b)"
  using floor_divide_of_int_eq [of "- numeral a" "numeral b", where ?'a = rat]
  by (simp add: ceiling_def)

lemmas exponent_eval = double_exponent_def floor_log2_def bit_length.simps
lemmas significand_eval = double_significand_def round_half_even_def pow2_def Let_def
lemmas round_eval = round_double_def pow2_def Let_def

lemma exponent_tenth_in: "double_exponent (1 / 10) = - 4"
  by (simp add: exponent_eval)

lemma significand_tenth_in: "double_significand (1 / 10) = 7205759403792794"
  by (simp add: exponent_tenth_in significand_eval)

lemma round_tenth_in: "round_double (1 / 10) = Finite (3602879701896397 / 36028797018963968)"
  by (simp add: exponent_tenth_in significand_tenth_in round_eval)

lemma exponent_fifth_in: "double_exponent (1 / 5) = - 3"
  by (simp add: exponent_eval)

lemma significand_fifth_in: "double_significand (1 / 5) = 7205759403792794"
  by (simp add: exponent_fifth_in significand_eval)

lemma round_fifth_in: "round_double (1 / 5) = Finite (3602879701896397 / 18014398509481984)"
  by (simp add: exponent_fifth_in significand_fifth_in round_eval)

lemma exponent_three_tenths_in: "double_exponent (3 / 10) = - 2"
  by (simp add: exponent_eval)

lemma significand_three_tenths_in: "double_significand (3 / 10) = 5404319552844595"
  by (simp add: exponent_three_tenths_in significand_eval)

lemma round_three_tenths_in: "round_double (3 / 10) = Finite (5404319552844595 / 18014398509481984)"
  by (simp add: exponent_three_tenths_in significand_three_tenths_in round_eval)

lemma exponent_tenth_x3: "double_exponent (10808639105689191 / 36028797018963968) = - 2"
  by (simp add: exponent_eval)

lemma significand_tenth_x3: "double_significand (10808639105689191 / 36028797018963968) = 5404319552844596"
  by (simp add: exponent_tenth_x3 significand_eval)

lemma round_tenth_x3: "round_double (10808639105689191 / 36028797018963968) = Finite (1351079888211149 / 4503599627370496)"
  by (simp add: exponent_tenth_x3 significand_tenth_x3 round_eval)

lemma exponent_diff: "double_exponent (- (1 / 18014398509481984)) = - 54"
  by (simp add: exponent_eval)

lemma significand_diff: "double_significand (- (1 / 18014398509481984)) = 4503599627370496"
  by (simp add: exponent_diff significand_eval)

lemma round_diff: "round_double (- (1 / 18014398509481984)) = Finite (- (1 / 18014398509481984))"
  by (simp add: exponent_diff significand_diff round_eval)







text \<open>A tie goes to the even significand: \<open>2 ^ 53 + 1\<close> is rounded to \<open>2 ^ 53\<close>.\<close>

lemma exponent_tie: "double_exponent 9007199254740993 = 53"
  by (simp add: exponent_eval)

lemma significand_tie: "double_significand 9007199254740993 = 4503599627370496"
  by (simp add: exponent_tie significand_eval)

lemma round_tie: "round_double 9007199254740993 = Finite 9007199254740992"
  by (simp add: exponent_tie significand_tie round_eval)

text \<open>General facts: a number that needs no rounding, whole numbers below \<open>2 ^ 53\<close>.\<close>

lemma pow2_pos: "0 < pow2 k"
  by (simp add: pow2_def)

lemma round_half_even_of_int: "round_half_even (of_int n) = n"
  by (simp add: round_half_even_def)

lemma is_double_0: "is_double 0"
  by (simp add: is_double_def round_double_def)

lemma is_doubleI:
  assumes "\<bar>x\<bar> / pow2 (double_exponent x - 52) = of_int n" and "\<bar>x\<bar> < pow2 1024"
  shows "is_double x"
proof (cases "x = 0")
  case True
  then show ?thesis by (simp add: is_double_0)
next
  case False
  have q: "pow2 (double_exponent x - 52) \<noteq> 0" using pow2_pos [of "double_exponent x - 52"] by simp
  have s: "double_significand x = n"
    by (simp add: double_significand_def assms(1) round_half_even_of_int)
  from assms(1) q have y: "of_int n * pow2 (double_exponent x - 52) = \<bar>x\<bar>"
    by (simp add: field_simps)
  show ?thesis
    using False assms(2) by (auto simp: is_double_def round_double_def s y Let_def)
qed





lemma bit_length_nonneg: "0 \<le> bit_length n"
  by (induction n rule: bit_length.induct) (subst bit_length.simps, simp)

lemma bit_length_bound: "n < 2 ^ k \<Longrightarrow> bit_length n \<le> int k"
proof (induction k arbitrary: n)
  case 0
  then show ?case by (subst bit_length.simps) simp
next
  case (Suc k)
  show ?case
  proof (cases "n \<le> 0")
    case True
    then show ?thesis by (subst bit_length.simps) simp
  next
    case False
    from Suc.prems have "n div 2 < 2 ^ k" by simp
    from Suc.IH [OF this] False show ?thesis by (subst bit_length.simps) simp
  qed
qed

lemma bit_length_pos: "1 \<le> n \<Longrightarrow> 1 \<le> bit_length n"
  using bit_length_nonneg [of "n div 2"] by (subst bit_length.simps) simp

lemma is_double_of_int:
  assumes "\<bar>m\<bar> < 2 ^ 53"
  shows "is_double (of_int m)"
proof (cases "m = 0")
  case True
  then show ?thesis by (simp add: is_double_0)
next
  case False
  define e where "e = bit_length \<bar>m\<bar> - 1"
  from False have m1: "1 \<le> \<bar>m\<bar>" by simp
  from bit_length_pos [OF m1] bit_length_bound [OF assms] have e: "0 \<le> e" "e \<le> 52"
    by (simp_all add: e_def)
  have fl: "\<lfloor>\<bar>of_int m :: rat\<bar>\<rfloor> = \<bar>m\<bar>"
    by (metis of_int_abs floor_of_int)
  from m1 have "(1::rat) \<le> \<bar>of_int m\<bar>" by simp
  then have "floor_log2 \<bar>of_int m\<bar> = e"
    by (simp add: floor_log2_def e_def fl)
  with e have de: "double_exponent (of_int m) = e"
    by (simp add: double_exponent_def)
  from e have p: "pow2 (e - 52) = 1 / 2 ^ nat (52 - e)"
    by (cases "e = 52") (simp_all add: pow2_def)
  have 1: "\<bar>of_int m\<bar> / pow2 (double_exponent (of_int m) - 52) = of_int (\<bar>m\<bar> * 2 ^ nat (52 - e))"
    unfolding de p by simp
  from assms have "(of_int \<bar>m\<bar> :: rat) < 2 ^ 53"
    by (metis of_int_less_numeral_power_cancel_iff)
  also have "\<dots> < pow2 1024" by (simp add: pow2_def)
  finally have 2: "\<bar>of_int m :: rat\<bar> < pow2 1024" by simp
  from 1 2 show ?thesis by (rule is_doubleI)
qed

lemma is_double_numeral: "\<bar>numeral k :: int\<bar> < 2 ^ 53 \<Longrightarrow> is_double (numeral k)"
  using is_double_of_int [of "numeral k"] by simp

lemma is_double_neg_numeral: "\<bar>numeral k :: int\<bar> < 2 ^ 53 \<Longrightarrow> is_double (- numeral k)"
  using is_double_of_int [of "- numeral k"] by simp


section \<open>Validation of the required fields\<close>

lemma truthy_None_iff: "truthy x = None \<longleftrightarrow> x = None \<or> x = Some 0"
  by (simp add: truthy_def split: option.splits)

lemma purchase_handler_400:
  assumes "truthy (pb_item_id b) = None \<or> truthy (pb_quantity b) = None \<or> truthy (pb_rate b) = None"
  shows "purchase_handler e b d = (Response 400 (Error ''Missing required fields''), d)"
  using assms unfolding purchase_handler_def by (auto split: option.splits)

lemma purchase_handler_not_400:
  assumes "truthy (pb_item_id b) = Some i" and "truthy (pb_quantity b) = Some q"
    and "truthy (pb_rate b) = Some r"
  shows "status (fst (purchase_handler e b d)) \<noteq> 400"
  using assms unfolding purchase_handler_def by (simp split: option.splits)

lemma inventory_handler_400:
  assumes "truthy_str (ib_item_name b) = None \<or> truthy_str (ib_category b) = None
           \<or> truthy (ib_quantity b) = None \<or> truthy (ib_rate b) = None"
  shows "inventory_handler e b d = (Response 400 (Error ''Missing required fields''), d)"
  using assms unfolding inventory_handler_def by (auto split: option.splits)

lemma expenses_handler_400:
  assumes "truthy_str (eb_description b) = None \<or> truthy (eb_amount b) = None"
  shows "expenses_handler e b d = (Response 400 (Error ''Description and amount are required''), d)"
  using assms unfolding expenses_handler_def by (auto split: option.splits)

text \<open>
  C5, as the code has it. The purchase route answers 400, with the database untouched,
  exactly when \<^verbatim>\<open>item_id\<close>, \<^verbatim>\<open>quantity\<close> or \<^verbatim>\<open>rate\<close> is missing or 0; the check
  is one of presence, not of sign.
\<close>

theorem purchase_validation:
  "(pb_item_id b = None \<or> pb_item_id b = Some 0 \<or> pb_quantity b = None \<or> pb_quantity b = Some 0
      \<or> pb_rate b = None \<or> pb_rate b = Some 0
     \<longrightarrow> purchase_handler e b d = (Response 400 (Error ''Missing required fields''), d))
   \<and> (status (fst (purchase_handler e b d)) = 400
     \<longrightarrow> pb_item_id b = None \<or> pb_item_id b = Some 0 \<or> pb_quantity b = None
         \<or> pb_quantity b = Some 0 \<or> pb_rate b = None \<or> pb_rate b = Some 0)"
proof (intro conjI impI)
  assume "pb_item_id b = None \<or> pb_item_id b = Some 0 \<or> pb_quantity b = None
          \<or> pb_quantity b = Some 0 \<or> pb_rate b = None \<or> pb_rate b = Some 0"
  then have "truthy (pb_item_id b) = None \<or> truthy (pb_quantity b) = None
             \<or> truthy (pb_rate b) = None"
    unfolding truthy_None_iff by blast
  then show "purchase_handler e b d = (Response 400 (Error ''Missing required fields''), d)"
    by (rule purchase_handler_400)
next
  assume st: "status (fst (purchase_handler e b d)) = 400"
  show "pb_item_id b = None \<or> pb_item_id b = Some 0 \<or> pb_quantity b = None
         \<or> pb_quantity b = Some 0 \<or> pb_rate b = None \<or> pb_rate b = Some 0"
  proof (rule ccontr)
    assume "\<not> ?thesis"
    then have "truthy (pb_item_id b) \<noteq> None" "truthy (pb_quantity b) \<noteq> None"
      "truthy (pb_rate b) \<noteq> None"
      unfolding truthy_None_iff by blast+
    then obtain i q r where "truthy (pb_item_id b) = Some i" "truthy (pb_quantity b) = Some q"
      "truthy (pb_rate b) = Some r" by auto
    from purchase_handler_not_400 [OF this] st show False by simp
  qed
qed

theorem purchase_validation_witness:
  "purchase_handler env_2024 (purchase_of 1 0 9) widget_db
     = (Response 400 (Error ''Missing required fields''), widget_db)
   \<and> status (fst (purchase_handler env_2024 (purchase_of 1 50 9) widget_db)) \<noteq> 400"
proof -
  have 1: "pb_quantity (purchase_of 1 0 9) = Some 0" by (simp add: purchase_of_def)
  have 2: "pb_item_id (purchase_of 1 50 9) \<noteq> None \<and> pb_item_id (purchase_of 1 50 9) \<noteq> Some 0
     \<and> pb_quantity (purchase_of 1 50 9) \<noteq> None \<and> pb_quantity (purchase_of 1 50 9) \<noteq> Some 0
     \<and> pb_rate (purchase_of 1 50 9) \<noteq> None \<and> pb_rate (purchase_of 1 50 9) \<noteq> Some 0"
    by (simp add: purchase_of_def)
  from purchase_validation [of "purchase_of 1 0 9" env_2024 widget_db]
       purchase_validation [of "purchase_of 1 50 9" env_2024 widget_db] 1 2
  show ?thesis by blast
qed

text \<open>
  C5 as stated fails: a purchase of quantity -5 is not rejected; it answers 201, the
  record is written and the quantity of the item falls from 100 to 95.
\<close>

theorem purchase_negative_quantity_counterexample:
  "fst (purchase_handler env_2024 (purchase_of 1 (- 5) 9) widget_db) = Response 201 (Id 1)
   \<and> map inv_quantity (inventory (snd (purchase_handler env_2024 (purchase_of 1 (- 5) 9) widget_db)))
       = [95]
   \<and> map pur_quantity (purchases (snd (purchase_handler env_2024 (purchase_of 1 (- 5) 9) widget_db)))
       = [- 5]
   \<and> map inv_quantity (inventory widget_db) = [100] \<and> purchases widget_db = []"
  by (simp add: purchase_defs scenario_defs js_defs)

text \<open>
  C10. A required numeric field that is 0 is rejected as a missing one is: creating an
  inventory item with quantity or rate 0, recording a purchase with quantity or rate 0
  and recording an expense with amount 0 each answer 400 and leave the database as it
  was, and the answer is the one given when the field is absent.
\<close>

theorem zero_rejected_like_missing:
  "(ib_quantity ib = Some 0 \<or> ib_rate ib = Some 0
      \<longrightarrow> inventory_handler e ib d = (Response 400 (Error ''Missing required fields''), d))
   \<and> (pb_quantity pb = Some 0 \<or> pb_rate pb = Some 0
      \<longrightarrow> purchase_handler e pb d = (Response 400 (Error ''Missing required fields''), d))
   \<and> (eb_amount eb = Some 0
      \<longrightarrow> expenses_handler e eb d = (Response 400 (Error ''Description and amount are required''), d))
   \<and> inventory_handler e (ib\<lparr>ib_quantity := Some 0\<rparr>) d = inventory_handler e (ib\<lparr>ib_quantity := None\<rparr>) d
   \<and> inventory_handler e (ib\<lparr>ib_rate := Some 0\<rparr>) d = inventory_handler e (ib\<lparr>ib_rate := None\<rparr>) d
   \<and> purchase_handler e (pb\<lparr>pb_quantity := Some 0\<rparr>) d = purchase_handler e (pb\<lparr>pb_quantity := None\<rparr>) d
   \<and> purchase_handler e (pb\<lparr>pb_rate := Some 0\<rparr>) d = purchase_handler e (pb\<lparr>pb_rate := None\<rparr>) d
   \<and> expenses_handler e (eb\<lparr>eb_amount := Some 0\<rparr>) d = expenses_handler e (eb\<lparr>eb_amount := None\<rparr>) d"
proof -
  have z: "truthy (Some (0::rat)) = None" "truthy (None :: rat option) = None"
    by (simp_all add: truthy_def)
  have 1: "ib_quantity ib = Some 0 \<or> ib_rate ib = Some 0
      \<longrightarrow> inventory_handler e ib d = (Response 400 (Error ''Missing required fields''), d)"
    by (auto intro!: inventory_handler_400 simp: z)
  have 2: "pb_quantity pb = Some 0 \<or> pb_rate pb = Some 0
      \<longrightarrow> purchase_handler e pb d = (Response 400 (Error ''Missing required fields''), d)"
    by (auto intro!: purchase_handler_400 simp: z)
  have 3: "eb_amount eb = Some 0
      \<longrightarrow> expenses_handler e eb d = (Response 400 (Error ''Description and amount are required''), d)"
    by (auto intro!: expenses_handler_400 simp: z)
  have 4: "inventory_handler e (ib\<lparr>ib_quantity := Some 0\<rparr>) d = inventory_handler e (ib\<lparr>ib_quantity := None\<rparr>) d"
    by (simp add: inventory_handler_400 z)
  have 5: "inventory_handler e (ib\<lparr>ib_rate := Some 0\<rparr>) d = inventory_handler e (ib\<lparr>ib_rate := None\<rparr>) d"
    by (simp add: inventory_handler_400 z)
  have 6: "purchase_handler e (pb\<lparr>pb_quantity := Some 0\<rparr>) d = purchase_handler e (pb\<lparr>pb_quantity := None\<rparr>) d"
    by (simp add: purchase_handler_400 z)
  have 7: "purchase_handler e (pb\<lparr>pb_rate := Some 0\<rparr>) d = purchase_handler e (pb\<lparr>pb_rate := None\<rparr>) d"
    by (simp add: purchase_handler_400 z)
  have 8: "expenses_handler e (eb\<lparr>eb_amount := Some 0\<rparr>) d = expenses_handler e (eb\<lparr>eb_amount := None\<rparr>) d"
    by (simp add: expenses_handler_400 z)
  from 1 2 3 4 5 6 7 8 show ?thesis by blast
qed

theorem zero_rejected_like_missing_witness:
  "inventory_handler env_2024 (widget_body\<lparr>ib_quantity := Some 0\<rparr>) empty_db
     = (Response 400 (Error ''Missing required fields''), empty_db)
   \<and> inventory_handler env_2024 (widget_body\<lparr>ib_rate := Some 0\<rparr>) empty_db
     = (Response 400 (Error ''Missing required fields''), empty_db)
   \<and> purchase_handler env_2024 (purchase_of 1 0 9) widget_db
     = (Response 400 (Error ''Missing required fields''), widget_db)
   \<and> purchase_handler env_2024 (purchase_of 1 50 0) widget_db
     = (Response 400 (Error ''Missing required fields''), widget_db)
   \<and> expenses_handler env_2024 (rent\<lparr>eb_amount := Some 0\<rparr>) widget_db
     = (Response 400 (Error ''Description and amount are required''), widget_db)
   \<and> status (fst (inventory_handler env_2024 widget_body empty_db)) = 201
   \<and> status (fst (expenses_handler env_2024 rent widget_db)) = 201"
proof -
  have "status (fst (inventory_handler env_2024 widget_body empty_db)) = 201"
    by (simp add: inventory_handler_def widget_body_def scenario_defs js_defs)
  moreover have "status (fst (expenses_handler env_2024 rent widget_db)) = 201"
    by (simp add: expenses_handler_def rent_def scenario_defs js_defs)
  moreover note
    zero_rejected_like_missing [where ib = "widget_body\<lparr>ib_quantity := Some 0\<rparr>"
      and pb = "purchase_of 1 0 9" and e = env_2024 and d = empty_db
      and eb = "rent\<lparr>eb_amount := Some 0\<rparr>"]
    zero_rejected_like_missing [where ib = "widget_body\<lparr>ib_rate := Some 0\<rparr>"
      and pb = "purchase_of 1 0 9" and e = env_2024 and d = empty_db
      and eb = "rent\<lparr>eb_amount := Some 0\<rparr>"]
    zero_rejected_like_missing [where ib = "widget_body\<lparr>ib_rate := Some 0\<rparr>"
      and pb = "purchase_of 1 0 9" and e = env_2024 and d = widget_db
      and eb = "rent\<lparr>eb_amount := Some 0\<rparr>"]
    zero_rejected_like_missing [where ib = "widget_body\<lparr>ib_rate := Some 0\<rparr>"
      and pb = "purchase_of 1 50 0" and e = env_2024 and d = widget_db
      and eb = "rent\<lparr>eb_amount := Some 0\<rparr>"]
  ultimately show ?thesis
    by (simp add: purchase_of_def)
qed

section \<open>Reports: the summary\<close>

lemma ifnull_sql_sum: "ifnull (sql_sum xs) 0 = sum_list xs"
proof -
  have "foldl (+) a xs = a + sum_list xs" for a :: rat
    by (induction xs arbitrary: a) (simp_all add: algebra_simps)
  from this [of 0] show ?thesis by (simp add: sql_sum_def ifnull_def)
qed

lemma sum_in_window:
  "sum_list (map f (filter (\<lambda>x. between (g x) a b) xs))
     = (\<Sum>x\<leftarrow>xs. if a \<le> g x \<and> g x \<le> b then f x else (0::rat))"
  by (simp add: sum_list_map_filter' between_def)

lemma reports_handler_eq:
  assumes "rq_from q = Some fromDate" and "rq_to q = Some toDate"
    and "\<not> throws e SelectTotals"
    and "spec_summarize fromDate toDate d
         = \<lparr>exact_sales = S, exact_purchases = P, exact_expenses = X, exact_netProfit = N\<rparr>"
  shows "status (fst (reports_handler e q d)) = 200"
    and "snd (reports_handler e q d) = d"
    and "summary_of (payload (fst (reports_handler e q d)))
         = Some \<lparr>sum_sales = round_double S, sum_purchases = round_double P,
                 sum_expenses = round_double X,
                 sum_netProfit = js_sub (round_double S) (js_add (round_double P) (round_double X))\<rparr>"
    and "N = S - (P + X)"
  using assms
  by (auto simp: reports_handler_def spec_summarize_def summary_of_def Let_def parse_float_def
        ifnull_sql_sum sum_in_window)

text \<open>
  C7, as the code has it. For a window given by \<^verbatim>\<open>from\<close> and \<^verbatim>\<open>to\<close>, when the queries
  succeed, the reports route answers 200 and leaves the database unchanged. With
  \<open>S\<close>, \<open>P\<close> and \<open>X\<close> the sums of the specification (the grand totals of the sale
  records dated in the window, quantity times rate of the purchase records in it, the
  amounts of the expense records in it), the summary holds the binary64 numbers
  nearest to \<open>S\<close>, \<open>P\<close> and \<open>X\<close>, and its net profit is sales less the sum of
  purchases and expenses, both computed in binary64. When \<open>S\<close>, \<open>P\<close>, \<open>X\<close>, \<open>P + X\<close>
  and \<open>S - (P + X)\<close> are binary64 numbers the summary is the exact one. The witness is
  Scenario D: 310, 450, 50 and -190.
\<close>

theorem reports_summary:
  assumes "rq_from q = Some fromDate" and "rq_to q = Some toDate"
    and "\<not> throws e SelectTotals"
    and "spec_summarize fromDate toDate d
         = \<lparr>exact_sales = S, exact_purchases = P, exact_expenses = X, exact_netProfit = N\<rparr>"
  shows "status (fst (reports_handler e q d)) = 200
     \<and> snd (reports_handler e q d) = d
     \<and> summary_of (payload (fst (reports_handler e q d)))
         = Some \<lparr>sum_sales = round_double S, sum_purchases = round_double P,
                 sum_expenses = round_double X,
                 sum_netProfit = js_sub (round_double S) (js_add (round_double P) (round_double X))\<rparr>
     \<and> (is_double S \<and> is_double P \<and> is_double X \<and> is_double (P + X) \<and> is_double N
          \<longrightarrow> summary_of (payload (fst (reports_handler e q d)))
              = Some \<lparr>sum_sales = Finite S, sum_purchases = Finite P, sum_expenses = Finite X,
                      sum_netProfit = Finite N\<rparr>
              \<and> N = S - (P + X))"
proof -
  note h = reports_handler_eq [OF assms]
  have "js_sub (round_double S) (js_add (round_double P) (round_double X)) = Finite N"
    if "is_double S" "is_double P" "is_double X" "is_double (P + X)" "is_double N"
  proof -
    have a: "js_add (round_double P) (round_double X) = Finite (P + X)"
      using that(2-4) by (simp add: is_double_def)
    have "S + - (P + X) = S - (P + X)" by simp
    then have b: "js_sub (Finite S) (Finite (P + X)) = round_double N"
      unfolding h(4) js_sub_def js_neg.simps js_add.simps by (rule arg_cong)
    from that(1,5) show ?thesis
      unfolding a by (simp add: is_double_def b)
  qed
  with h show ?thesis by (auto simp: is_double_def)
qed

lemma tenths_spec:
  "spec_summarize 19783 19813 tenths_db
     = \<lparr>exact_sales = 3 / 10, exact_purchases = 1 / 10, exact_expenses = 1 / 5, exact_netProfit = 0\<rparr>"
  by (simp add: spec_summarize_def tenths_db_def scenario_defs)

text \<open>
  C7 as stated fails: with one sale of 0.30, one purchase of 1 at 0.10 and one expense
  of 0.20 in the window, the sums are 3/10, 1/10 and 1/5 and their net is 0, while the
  summary returned holds the binary64 numbers nearest to them and a net profit of
  -5.551115123125783e-17.
\<close>

theorem reports_summary_counterexample:
  "payload (fst (reports_handler env_2024 scenario_window tenths_db))
     = Summary \<lparr>sum_sales = Finite (5404319552844595 / 18014398509481984),
                sum_purchases = Finite (3602879701896397 / 36028797018963968),
                sum_expenses = Finite (3602879701896397 / 18014398509481984),
                sum_netProfit = Finite (- (1 / 18014398509481984))\<rparr>
   \<and> spec_summarize 19783 19813 tenths_db
       = \<lparr>exact_sales = 3 / 10, exact_purchases = 1 / 10, exact_expenses = 1 / 5,
          exact_netProfit = 0\<rparr>"
proof -
  have "reports_handler env_2024 scenario_window tenths_db
     = (Response 200 (Summary \<lparr>sum_sales = Finite (5404319552844595 / 18014398509481984),
                sum_purchases = Finite (3602879701896397 / 36028797018963968),
                sum_expenses = Finite (3602879701896397 / 18014398509481984),
                sum_netProfit = Finite (- (1 / 18014398509481984))\<rparr>), tenths_db)"
    by (simp add: reports_handler_def scenario_window_def tenths_db_def scenario_defs between_def
          sql_sum_def ifnull_def parse_float_def js_sub_def
          round_three_tenths_in round_tenth_in round_fifth_in round_tenth_x3 round_diff)
  with tenths_spec show ?thesis by simp
qed

lemma scenario_D_tables:
  "sales scenario_D_db = sales scenario_B_db"
  "purchases scenario_D_db = purchases scenario_A_db"
  "map exp_amount (expenses scenario_D_db) = [50]"
  "map exp_date (expenses scenario_D_db) = [19800]"
  using scenario_B_db_eq
  by (simp_all add: scenario_D_db_def expenses_handler_def rent_def js_defs scenario_defs)

lemma sum_list_window_map:
  "(\<Sum>x\<leftarrow>xs. if a \<le> g x \<and> g x \<le> b then f x else (0::rat))
    = (\<Sum>p\<leftarrow>zip (map g xs) (map f xs). if a \<le> fst p \<and> fst p \<le> b then snd p else 0)"
  by (induction xs) simp_all

lemma scenario_D_spec:
  "spec_summarize 19783 19813 scenario_D_db
     = \<lparr>exact_sales = 310, exact_purchases = 450, exact_expenses = 50,
        exact_netProfit = - 190\<rparr>"
  unfolding spec_summarize_def scenario_D_tables
  apply (subst sum_list_window_map [of _ sale_date])
  apply (subst sum_list_window_map [of _ exp_date])
  using scenario_B_db_eq
  by (simp add: scenario_D_tables scenario_A_db_eq)

theorem reports_summary_witness:
  "status (fst (reports_handler env_2024 scenario_window scenario_D_db)) = 200
   \<and> summary_of (payload (fst (reports_handler env_2024 scenario_window scenario_D_db)))
     = Some \<lparr>sum_sales = Finite 310, sum_purchases = Finite 450, sum_expenses = Finite 50,
             sum_netProfit = Finite (- 190)\<rparr>"
proof -
  have 1: "rq_from scenario_window = Some 19783" and 2: "rq_to scenario_window = Some 19813"
    by (simp_all add: scenario_window_def)
  have 3: "\<not> throws env_2024 SelectTotals" by (simp add: scenario_defs)
  have 4: "is_double 310 \<and> is_double 450 \<and> is_double 50 \<and> is_double (450 + 50)
           \<and> is_double (- 190)"
    by (simp add: is_double_numeral is_double_neg_numeral)
  from reports_summary [OF 1 2 3 scenario_D_spec] 4 show ?thesis
    by (simp add: is_double_def js_sub_def)
qed

section \<open>Conservation of quantity\<close>











section \<open>Invoice numbers\<close>

lemma digit_cases: "k mod 10 = 0 \<or> k mod 10 = 1 \<or> k mod 10 = 2 \<or> k mod 10 = 3 \<or> k mod 10 = 4
   \<or> k mod 10 = 5 \<or> k mod 10 = 6 \<or> k mod 10 = 7 \<or> k mod 10 = 8 \<or> k mod 10 = (9::nat)"
  by presburger

lemma is_digit_digit_char: "is_digit (digit_char k)"
  using digit_cases [of k] by (auto simp: is_digit_def digit_char_def)

lemma digit_value_digit_char: "digit_value (digit_char k) = k mod 10"
  using digit_cases [of k] by (auto simp: digit_value_def digit_char_def)

lemma string_of_nat_digits: "list_all is_digit (string_of_nat n)"
proof (induction n rule: string_of_nat.induct)
  case (1 n)
  then show ?case
    by (subst string_of_nat.simps) (simp add: is_digit_digit_char)
qed

lemma nat_of_digits_snoc: "nat_of_digits (s @ [c]) = 10 * nat_of_digits s + digit_value c"
  by (simp add: nat_of_digits_def)

lemma nat_of_digits_string_of_nat: "nat_of_digits (string_of_nat n) = n"
proof (induction n rule: string_of_nat.induct)
  case (1 n)
  show ?case
  proof (cases "n < 10")
    case True
    then show ?thesis
      by (subst string_of_nat.simps) (simp add: nat_of_digits_def digit_value_digit_char)
  next
    case False
    with 1 show ?thesis
      by (subst string_of_nat.simps) (simp add: nat_of_digits_snoc digit_value_digit_char)
  qed
qed

lemma nat_of_digits_zeros: "nat_of_digits (replicate k (CHR ''0'') @ s) = nat_of_digits s"
proof -
  have "foldl (\<lambda>a c. 10 * a + digit_value c) 0 (replicate k (CHR ''0'')) = 0"
    by (induction k) (simp_all add: digit_value_def)
  then show ?thesis by (simp add: nat_of_digits_def)
qed

lemma pad_start_digits:
  assumes "list_all is_digit s"
  shows "list_all is_digit (pad_start 3 (CHR ''0'') s)" and "3 \<le> length (pad_start 3 (CHR ''0'') s)"
proof -
  have "is_digit (CHR ''0'')" by (simp add: is_digit_def)
  with assms show "list_all is_digit (pad_start 3 (CHR ''0'') s)"
    by (auto simp: pad_start_def list_all_iff)
  show "3 \<le> length (pad_start 3 (CHR ''0'') s)"
    by (simp add: pad_start_def)
qed

lemma length_string_of_nat_year:
  assumes "1000 \<le> y" and "y \<le> 9999"
  shows "length (string_of_nat y) = 4"
proof -
  from assms have a: "\<not> y < 10" "\<not> y div 10 < 10" "\<not> y div 10 div 10 < 10" "y div 10 div 10 div 10 < 10"
    by simp_all
  show ?thesis
    apply (subst string_of_nat.simps, simp add: a)
    apply (subst string_of_nat.simps, simp add: a)
    apply (subst string_of_nat.simps, simp add: a)
    apply (subst string_of_nat.simps, simp add: a)
    done
qed

lemma invoice_number_format:
  assumes "1000 \<le> y" and "y \<le> 9999"
  shows "matches_invoice_format (invoice_number y n)"
    and "sequence_of (invoice_number y n) = n"
proof -
  have y: "length (string_of_nat y) = 4" using assms by (rule length_string_of_nat_year)
  show "matches_invoice_format (invoice_number y n)"
    using y string_of_nat_digits [of y] pad_start_digits [OF string_of_nat_digits [of n]]
    by (simp add: matches_invoice_format_def invoice_number_def)
  show "sequence_of (invoice_number y n) = n"
    using y
    by (simp add: sequence_of_def invoice_number_def pad_start_def nat_of_digits_zeros
          nat_of_digits_string_of_nat)
qed

lemma purchase_handler_no_invoice:
  "purchase_handler e b d = (rsp, d') \<Longrightarrow> invoices_of (rsp # rs) = invoices_of rs \<and> sales d' = sales d"
  by (auto simp: purchase_defs split: option.splits if_splits prod.splits Option.bind_splits)

lemma sales_handler_invoice:
  assumes "sales_handler e b d = (rsp, d')"
  shows "(\<exists>g. rsp = Response 201 (Invoice (invoice_number (current_year e) (Suc (length (sales d)))) g)
            \<and> length (sales d') = Suc (length (sales d)))
         \<or> (invoices_of (rsp # rs) = invoices_of rs \<and> sales d' = sales d)"
proof (cases "sb_items b = None \<or> sb_items b = Some []")
  case True
  from sales_handler_400 [OF this, of e d] assms show ?thesis by auto
next
  case False
  then obtain items where items: "sb_items b = Some items" "items \<noteq> []" by auto
  from sales_handler_eq [OF items, of e d] assms show ?thesis
    by (auto split: if_splits)
qed

lemma step_invoice:
  assumes "step e rq d = (rsp, d')"
  shows "(\<exists>g. rsp = Response 201 (Invoice (invoice_number (current_year e) (Suc (length (sales d)))) g)
            \<and> length (sales d') = Suc (length (sales d)))
         \<or> (invoices_of (rsp # rs) = invoices_of rs \<and> sales d' = sales d)"
  using assms purchase_handler_no_invoice [of e _ d rsp d' rs] sales_handler_invoice [of e _ d rsp d' rs]
  by (cases rq) (auto simp: step_def)

lemma run_invoices:
  assumes "\<forall>(e, rq)\<in>set reqs. current_year e = y" and "run reqs d = (rs, d')"
  shows "invoices_of rs = map (invoice_number y)
           [Suc (length (sales d)) ..< Suc (length (sales d)) + length (invoices_of rs)]"
  using assms
proof (induction reqs arbitrary: d rs d')
  case Nil
  then show ?case by simp
next
  case (Cons a reqs)
  obtain e rq where a: "a = (e, rq)" by (cases a)
  obtain rsp d1 where st: "step e rq d = (rsp, d1)" by (cases "step e rq d")
  obtain rs' d2 where r: "run reqs d1 = (rs', d2)" by (cases "run reqs d1")
  from Cons.prems(2) a st r have rs: "rs = rsp # rs'" by simp
  from Cons.prems(1) a have y: "current_year e = y" and ys: "\<forall>(e, rq)\<in>set reqs. current_year e = y"
    by simp_all
  note IH = Cons.IH [OF ys r]
  from step_invoice [OF st, of rs'] show ?case
  proof
    assume "\<exists>g. rsp = Response 201 (Invoice (invoice_number (current_year e) (Suc (length (sales d)))) g)
            \<and> length (sales d1) = Suc (length (sales d))"
    then obtain g where rsp: "rsp = Response 201 (Invoice (invoice_number y (Suc (length (sales d)))) g)"
      and len: "length (sales d1) = Suc (length (sales d))"
      using y by auto
    have "[Suc (length (sales d)) ..< Suc (length (sales d)) + Suc (length (invoices_of rs'))]
          = Suc (length (sales d))
            # [Suc (length (sales d1)) ..< Suc (length (sales d1)) + length (invoices_of rs')]"
      unfolding len by (simp add: upt_conv_Cons del: upt_Suc)
    with IH show ?thesis
      unfolding rs rsp by (simp del: upt_Suc)
  next
    assume "invoices_of (rsp # rs') = invoices_of rs' \<and> sales d1 = sales d"
    with IH show ?thesis unfolding rs by simp
  qed
qed

text \<open>
  C6. Serve purchase and sale requests one after the other in a year \<open>y\<close> of four
  digits, from a database holding \<open>n\<close> sale records. The invoice numbers returned are,
  in order, \<^verbatim>\<open>INV-y-\<close> followed by \<open>n + 1\<close>, \<open>n + 2\<close>, ... padded with zeros to three
  digits: each is built from the count of the sale records at that moment plus one,
  each matches \<^verbatim>\<open>INV-\d{4}-\d{3,}\<close>, and the sequence numbers read back from them are
  strictly increasing.
\<close>

theorem invoice_numbers_sequential:
  assumes "\<forall>(e, rq)\<in>set reqs. current_year e = y" and "1000 \<le> y" and "y \<le> 9999"
    and "run reqs d = (rs, d')"
  shows "invoices_of rs = map (invoice_number y)
           [Suc (length (sales d)) ..< Suc (length (sales d)) + length (invoices_of rs)]
     \<and> (\<forall>n\<in>set (invoices_of rs). matches_invoice_format n)
     \<and> map sequence_of (invoices_of rs)
         = [Suc (length (sales d)) ..< Suc (length (sales d)) + length (invoices_of rs)]
     \<and> sorted_wrt (<) (map sequence_of (invoices_of rs))"
proof -
  let ?seqs = "[Suc (length (sales d)) ..< Suc (length (sales d)) + length (invoices_of rs)]"
  have 1: "invoices_of rs = map (invoice_number y) ?seqs"
    using assms(1,4) by (rule run_invoices)
  have 2: "\<forall>n\<in>set (invoices_of rs). matches_invoice_format n"
    by (subst 1) (simp add: invoice_number_format(1) [OF assms(2,3)])
  have 3: "map sequence_of (invoices_of rs) = ?seqs"
    by (subst 1) (simp add: comp_def invoice_number_format(2) [OF assms(2,3)] del: upt_Suc)
  have 4: "sorted_wrt (<) (map sequence_of (invoices_of rs))"
    unfolding 3 by (simp del: upt_Suc)
  from 1 2 3 4 show ?thesis by blast
qed

lemma invoice_2024_2: "invoice_number 2024 (Suc (Suc 0)) = ''INV-2024-002''"
  by (simp add: invoice_number_def pad_start_def string_of_nat.simps digit_char_def numeral_2_eq_2)

lemma two_sales_run:
  "fst (run two_sales_requests widget_db) =
    [Response 201 (Invoice ''INV-2024-001'' 310),
     Response 400 (Error ''Missing required fields''),
     Response 201 (Invoice ''INV-2024-002'' 200)]"
proof -
  have 1: "sb_items (sale_of [line_of 1 30 10] 5 5 0) = Some [line_of 1 30 10]"
    and 2: "sb_items (sale_of [line_of 1 20 10] 0 0 0) = Some [line_of 1 20 10]"
    by (simp_all add: sale_of_def)
  have 3: "[line_of 1 30 10] \<noteq> []" "[line_of 1 20 10] \<noteq> []" by simp_all
  have t: "truthy (Some (0::rat)) = None" by (simp add: truthy_def)
  have 4: "purchase_handler env_2024 (purchase_of 1 0 9) dd
     = (Response 400 (Error ''Missing required fields''), dd)" for dd
    by (rule purchase_handler_400) (simp add: purchase_of_def t)
  show ?thesis
    unfolding two_sales_requests_def
    apply (simp add: step_def sales_handler_eq [OF 1 3(1)] sales_handler_eq [OF 2 3(2)] 4)
    apply (simp add: sale_calls_def scenario_defs invoice_2024_1 invoice_2024_2
          taxable_total_def tax_or_zero_def js_defs)
    done
qed

theorem invoice_numbers_sequential_witness:
  "invoices_of (fst (run two_sales_requests widget_db)) = [''INV-2024-001'', ''INV-2024-002'']
   \<and> matches_invoice_format ''INV-2024-001'' \<and> matches_invoice_format ''INV-2024-002''
   \<and> map sequence_of [''INV-2024-001'', ''INV-2024-002''] = [1, 2]"
proof -
  have 1: "\<forall>(e, rq)\<in>set two_sales_requests. current_year e = 2024"
    by (simp add: two_sales_requests_def env_2024_def)
  have 2: "(1000::nat) \<le> 2024" and 3: "(2024::nat) \<le> 9999" by simp_all
  have 4: "run two_sales_requests widget_db
             = (fst (run two_sales_requests widget_db), snd (run two_sales_requests widget_db))"
    by simp
  have 5: "invoices_of (fst (run two_sales_requests widget_db)) = [''INV-2024-001'', ''INV-2024-002'']"
    by (simp add: two_sales_run)
  have 6: "length (sales widget_db) = 0" by (simp add: scenario_defs)
  have 7: "[Suc 0 ..< Suc 0 + 2] = [Suc 0, Suc (Suc 0)]" by (simp add: upt_rec)
  have 8: "[1, 2::nat] = [Suc 0, Suc (Suc 0)]" by (simp add: numeral_2_eq_2)
  from invoice_numbers_sequential [OF 1 2 3 4] show ?thesis
    unfolding 5 6 8 by (simp add: 7 invoice_2024_1 invoice_2024_2)
qed

end
